theory Spec2Isabelle
  imports Main
begin

section \<open>The NetBox adapter models of network-importer\<close>

text \<open>
  A shallow embedding of \<^verbatim>\<open>network_importer/adapters/netbox_api/models.py\<close>:
  the attribute translator of \<^verbatim>\<open>NetboxInterface\<close> and the create, update
  and delete operations of the interface, IP address, VLAN and cable models.
  Exceptions are values of a sum type, the remote NetBox client is an answer
  function together with the list of calls issued so far, and the interface
  objects, which cable creation mutates through references, live in a store of
  their own.
\<close>

subsection \<open>Python values\<close>

text \<open>
  Attribute dictionaries hold values of several Python types. Truthiness is
  Python's: \<^verbatim>\<open>None\<close>, \<^verbatim>\<open>False\<close>, \<^verbatim>\<open>0\<close>, the empty
  string and the empty list are falsy. The fields of the models are typed
  (optional booleans, integers, strings, lists of strings), so a boolean and an
  integer never meet in one field and structural equality is Python's
  \<^verbatim>\<open>==\<close> on them.
\<close>

datatype pyval = PNone | PBool bool | PInt int | PStr string | PList "pyval list"

fun truthy :: "pyval \<Rightarrow> bool" where
  "truthy PNone = False"
| "truthy (PBool b) = b"
| "truthy (PInt i) = (i \<noteq> 0)"
| "truthy (PStr s) = (s \<noteq> [])"
| "truthy (PList xs) = (xs \<noteq> [])"

type_synonym pydict = "string \<rightharpoonup> pyval"

datatype exn = KeyError string | AttributeError | TypeError | RequestError | TransportError

text \<open>The value of an optional remote identifier as a call parameter.\<close>

fun of_remote_id :: "int option \<Rightarrow> pyval" where
  "of_remote_id None = PNone"
| "of_remote_id (Some i) = PInt i"

text \<open>Truthiness of an optional string (\<^verbatim>\<open>Optional[str]\<close>).\<close>

fun truthy_str :: "string option \<Rightarrow> bool" where
  "truthy_str None = False"
| "truthy_str (Some s) = (s \<noteq> [])"

text \<open>Python's \<^verbatim>\<open>str\<close> of an integer, for the f-string of the default VLAN name.\<close>

fun str_nat :: "nat \<Rightarrow> string" where
  "str_nat n =
     (if n < 10 then [''0123456789'' ! n]
      else str_nat (n div 10) @ [''0123456789'' ! (n mod 10)])"

definition str_int :: "int \<Rightarrow> string" where
  "str_int i = (if i < 0 then CHR ''-'' # str_nat (nat (- i)) else str_nat (nat i))"

text \<open>
  Iterating a value in a list comprehension: a list yields its elements, a
  string its characters, anything else raises \<^verbatim>\<open>TypeError\<close>.
\<close>

fun py_iter :: "pyval \<Rightarrow> exn + pyval list" where
  "py_iter (PList xs) = Inr xs"
| "py_iter (PStr s) = Inr (map (\<lambda>c. PStr [c]) s)"
| "py_iter v = Inl TypeError"

subsection \<open>Entities\<close>

text \<open>
  Modelled from the spec: the base models (\<^verbatim>\<open>network_importer.models\<close>) are not
  among the sources. Following section 3 of the specification an entity has its
  identity fields, the attribute set that \<^verbatim>\<open>get_attrs\<close> returns (a
  dictionary, compared with a candidate attribute set to decide whether an update
  is a no-op), and its remote identifier, absent until creation succeeds. The
  fields that the classes of the file add to the base models
  (\<^verbatim>\<open>remote_id\<close>, \<^verbatim>\<open>primary_ip\<close>, \<^verbatim>\<open>connected_endpoint_type\<close>) and the
  fields that its methods read (\<^verbatim>\<open>ips\<close>, \<^verbatim>\<open>address\<close>, the names) are as
  the source has them; a field name carries a prefix where two classes share it.
\<close>

record netbox_site =
  site_remote_id :: "int option"

record netbox_device =
  dev_name :: string
  dev_remote_id :: "int option"
  primary_ip :: "string option"

record netbox_interface =
  device_name :: string
  name :: string
  attrs :: pydict
  ips :: "string list"
  remote_id :: "int option"
  connected_endpoint_type :: "string option"

record netbox_ip_address =
  address :: string
  ip_device_name :: "string option"
  ip_remote_id :: "int option"

record netbox_vlan =
  site_name :: string
  vid :: int
  vlan_attrs :: pydict
  vlan_remote_id :: "int option"

record netbox_cable =
  device_a_name :: string
  interface_a_name :: string
  device_z_name :: string
  interface_z_name :: string
  cable_attrs :: pydict
  cable_remote_id :: "int option"

text \<open>The identifier dictionaries (\<^verbatim>\<open>ids\<close>) handed to the creates.\<close>

record interface_ids =
  ids_device_name :: string
  ids_name :: string

record vlan_ids =
  ids_site_name :: string
  ids_vid :: int

record cable_ids =
  ids_device_a_name :: string
  ids_interface_a_name :: string
  ids_device_z_name :: string
  ids_interface_z_name :: string

subsection \<open>The remote client\<close>

text \<open>
  The calls the adapter issues on the pynetbox client. A create carries its
  keyword arguments, a get the remote identifier it asks for, an update and a
  delete the identifier of the record they are invoked on. The last constructor is
  the remote lookup behind \<^verbatim>\<open>get_intf_from_netbox\<close>.
\<close>

datatype endpoint = Interfaces | IpAddresses | Vlans | Cables

datatype remote_call =
    Create endpoint pydict
  | Get endpoint "int option"
  | Update endpoint int pydict
  | Delete endpoint int
  | Lookup string string

datatype reply = Record int | NoRecord | Done bool

datatype level = DEBUG | INFO | WARNING

datatype message =
    CreatedInterface int
  | UpdatedInterface string string "int option"
  | UnableToDeleteInterface string string
  | UnableToDeleteIPAddress string string
  | UnableToCreateVlan vlan_ids
  | PortAlreadyConnected string string
  | UnableToCreateCable cable_ids
  | CreatedCable int

text \<open>
  The environment of a run: the answers of the remote system (they may depend on
  the calls issued before), the answer of the remote interface lookup, and the
  setting \<^verbatim>\<open>config.SETTINGS.main.import_vlans\<close>.
\<close>

record env =
  netbox :: "remote_call list \<Rightarrow> remote_call \<Rightarrow> exn + reply"
  netbox_interface_of :: "remote_call list \<Rightarrow> string \<Rightarrow> string \<Rightarrow> netbox_interface option"
  import_vlans :: string

subsection \<open>The reconciliation context\<close>

text \<open>
  Modelled from the spec: the class \<^verbatim>\<open>DSync\<close> is not among the sources.
  Following section 6 of the specification its \<^verbatim>\<open>get(entity_type, identifier)\<close>
  returns the entity or \<^verbatim>\<open>None\<close>, so each entity type is a partial map from
  identifiers. An interface is looked up either by its unique identifier (the
  value of the \<^verbatim>\<open>parent\<close> attribute) or by the dictionary of its device
  name and interface name. Interfaces are objects in a store addressed by
  references, since cable creation writes to the objects it has looked up; the
  context holds, as a finite table, the reference of each identifier it knows. The
  record also carries the calls issued on the remote client and the log.
\<close>

datatype lookup_key = Uid pyval | Ident string string

record dsync =
  sites :: "string \<rightharpoonup> netbox_site"
  devices :: "string \<rightharpoonup> netbox_device"
  vlans :: "pyval \<rightharpoonup> netbox_vlan"
  interface_index :: "(lookup_key \<times> nat) list"
  interface_objs :: "nat \<Rightarrow> netbox_interface"
  next_ref :: nat
  remote_calls :: "remote_call list"
  logged :: "(level \<times> message) list"

text \<open>Every reference of the context is allocated.\<close>

definition refs_allocated :: "dsync \<Rightarrow> bool" where
  "refs_allocated s = (\<forall>r \<in> set (map snd (interface_index s)). r < next_ref s)"

definition get_interface :: "dsync \<Rightarrow> lookup_key \<Rightarrow> nat option" where
  "get_interface s k = map_of (interface_index s) k"

definition set_interface :: "nat \<Rightarrow> (netbox_interface \<Rightarrow> netbox_interface) \<Rightarrow> dsync \<Rightarrow> dsync" where
  "set_interface r f s = s\<lparr>interface_objs := (interface_objs s)(r := f (interface_objs s r))\<rparr>"

definition remote :: "env \<Rightarrow> remote_call \<Rightarrow> dsync \<Rightarrow> (exn + reply) \<times> dsync" where
  "remote e c s = (netbox e (remote_calls s) c, s\<lparr>remote_calls := remote_calls s @ [c]\<rparr>)"

definition log_msg :: "level \<Rightarrow> message \<Rightarrow> dsync \<Rightarrow> dsync" where
  "log_msg l m s = s\<lparr>logged := logged s @ [(l, m)]\<rparr>"

text \<open>Allocation of a fresh interface object.\<close>

definition new_interface :: "netbox_interface \<Rightarrow> dsync \<Rightarrow> nat \<times> dsync" where
  "new_interface obj s =
     (next_ref s,
      s\<lparr>interface_objs := (interface_objs s)(next_ref s := obj), next_ref := Suc (next_ref s)\<rparr>)"

text \<open>
  Modelled from the spec: \<^verbatim>\<open>get_intf_from_netbox\<close> belongs to the adapter class,
  which is not among the sources. Following section 6 of the specification it
  fetches the interface from the remote system by device name and interface name
  and returns an entity or \<^verbatim>\<open>None\<close>.
\<close>

definition get_intf_from_netbox :: "env \<Rightarrow> string \<Rightarrow> string \<Rightarrow> dsync \<Rightarrow> nat option \<times> dsync" where
  "get_intf_from_netbox e dev intf s =
     (let s1 = s\<lparr>remote_calls := remote_calls s @ [Lookup dev intf]\<rparr>
      in case netbox_interface_of e (remote_calls s) dev intf of
           None \<Rightarrow> (None, s1)
         | Some obj \<Rightarrow> (let (r, s2) = new_interface obj s1 in (Some r, s2)))"

subsection \<open>NetboxInterface\<close>

text \<open>\<^verbatim>\<open>convert_vlan_to_nid\<close>, the local function of the translator.\<close>

definition convert_vlan_to_nid :: "dsync \<Rightarrow> pyval \<Rightarrow> pyval" where
  "convert_vlan_to_nid s vlan_uid =
     (case vlans s vlan_uid of
        Some vlan \<Rightarrow> of_remote_id (vlan_remote_id vlan)
      | None \<Rightarrow> PNone)"

text \<open>\<^verbatim>\<open>"k" in attrs and attrs["k"]\<close>\<close>

definition has_truthy :: "pydict \<Rightarrow> string \<Rightarrow> bool" where
  "has_truthy d k = (case d k of Some v \<Rightarrow> truthy v | None \<Rightarrow> False)"

text \<open>\<^verbatim>\<open>"mode" in attrs and attrs["mode"] in [...]\<close>\<close>

definition mode_in :: "pydict \<Rightarrow> string list \<Rightarrow> bool" where
  "mode_in d ms = (case d ''mode'' of Some v \<Rightarrow> v \<in> set (map PStr ms) | None \<Rightarrow> False)"

text \<open>
  The translator, block by block in the order of the source. Lines 63 to 86: the
  device, the name, the type, the MTU, the description and the switchport mode.
  A device that the context does not hold makes \<^verbatim>\<open>device.remote_id\<close> raise.
\<close>

definition translate_basic :: "dsync \<Rightarrow> netbox_interface \<Rightarrow> pydict \<Rightarrow> exn + pydict" where
  "translate_basic s self a =
     (case devices s (device_name self) of
        None \<Rightarrow> Inl AttributeError
      | Some device \<Rightarrow>
          (let nb = [''device'' \<mapsto> of_remote_id (dev_remote_id device), ''name'' \<mapsto> PStr (name self)];
               nb = (if has_truthy a ''is_lag'' then nb(''type'' \<mapsto> PStr ''lag'')
                     else if has_truthy a ''is_virtual'' then nb(''type'' \<mapsto> PStr ''virtual'')
                     else nb(''type'' \<mapsto> PStr ''other''));
               nb = (case a ''mtu'' of Some v \<Rightarrow> nb(''mtu'' \<mapsto> v) | None \<Rightarrow> nb);
               nb = (case a ''description'' of
                       Some v \<Rightarrow> nb(''description'' \<mapsto> (if truthy v then v else PStr ''''))
                     | None \<Rightarrow> nb);
               nb = (if a ''switchport_mode'' = Some (PStr ''ACCESS'') then nb(''mode'' \<mapsto> PStr ''access'')
                     else if a ''switchport_mode'' = Some (PStr ''TRUNK'')
                       then nb(''switchport_mode'' \<mapsto> PStr ''tagged'')
                     else nb)
           in Inr nb))"

text \<open>
  Lines 92 to 95: the untagged VLAN. The subscript \<^verbatim>\<open>attrs["access_vlan"]\<close> is
  evaluated once the mode is one of the two, and raises when the key is missing.
\<close>

definition translate_untagged :: "dsync \<Rightarrow> pydict \<Rightarrow> pydict \<Rightarrow> exn + pydict" where
  "translate_untagged s a nb =
     (if mode_in a [''TRUNK'', ''ACCESS''] then
        (case a ''access_vlan'' of
           None \<Rightarrow> Inl (KeyError ''access_vlan'')
         | Some v \<Rightarrow>
             if truthy v then Inr (nb(''untagged_vlan'' \<mapsto> convert_vlan_to_nid s v))
             else Inr (nb(''untagged_vlan'' \<mapsto> PNone)))
      else Inr nb)"

text \<open>Lines 97 to 100: the tagged VLANs.\<close>

definition translate_tagged :: "dsync \<Rightarrow> pydict \<Rightarrow> pydict \<Rightarrow> exn + pydict" where
  "translate_tagged s a nb =
     (if mode_in a [''TRUNK'', ''L3_SUB_VLAN''] then
        (case a ''allowed_vlans'' of
           None \<Rightarrow> Inr (nb(''tagged_vlans'' \<mapsto> PList []))
         | Some v \<Rightarrow>
             if truthy v then
               (case py_iter v of
                  Inl x \<Rightarrow> Inl x
                | Inr vs \<Rightarrow> Inr (nb(''tagged_vlans'' \<mapsto> PList (map (convert_vlan_to_nid s) vs))))
             else Inr (nb(''tagged_vlans'' \<mapsto> PList [])))
      else Inr nb)"

text \<open>
  Lines 102 to 108: LAG membership. The parent is looked up in the context and
  its \<^verbatim>\<open>remote_id\<close> read with no check that the lookup found it.
\<close>

definition translate_lag :: "dsync \<Rightarrow> pydict \<Rightarrow> pydict \<Rightarrow> exn + pydict" where
  "translate_lag s a nb =
     (case a ''is_lag_member'' of
        None \<Rightarrow> Inr nb
      | Some v \<Rightarrow>
          if truthy v then
            (case a ''parent'' of
               None \<Rightarrow> Inl (KeyError ''parent'')
             | Some p \<Rightarrow>
                 (case get_interface s (Uid p) of
                    None \<Rightarrow> Inl AttributeError
                  | Some r \<Rightarrow> Inr (nb(''lag'' \<mapsto> of_remote_id (remote_id (interface_objs s r))))))
          else Inr (nb(''lag'' \<mapsto> PNone)))"

definition translate_attrs_for_netbox ::
    "env \<Rightarrow> dsync \<Rightarrow> netbox_interface \<Rightarrow> pydict \<Rightarrow> exn + pydict" where
  "translate_attrs_for_netbox e s self a =
     (case translate_basic s self a of
        Inl x \<Rightarrow> Inl x
      | Inr nb \<Rightarrow>
          (case (if import_vlans e \<noteq> ''no'' then
                   (case translate_untagged s a nb of
                      Inl x \<Rightarrow> Inl x
                    | Inr nb1 \<Rightarrow> translate_tagged s a nb1)
                 else Inr nb) of
             Inl x \<Rightarrow> Inl x
           | Inr nb2 \<Rightarrow> translate_lag s a nb2))"

text \<open>
  The result of a create: the new entity, or the \<^verbatim>\<open>False\<close> that the source
  returns where creation does not proceed.
\<close>

datatype 'a returned = Item 'a | ReturnedFalse

text \<open>
  Modelled from the spec: \<^verbatim>\<open>super().create\<close> and \<^verbatim>\<open>super().update\<close> belong
  to the base class, which is not among the sources. Following sections 3 and 4.3
  of the specification the one instantiates the entity from its identity and the
  desired attributes, with no remote identifier yet, and the other commits the
  candidate attributes to the entity.
\<close>

definition base_interface :: "interface_ids \<Rightarrow> pydict \<Rightarrow> netbox_interface" where
  "base_interface ids a =
     \<lparr>device_name = ids_device_name ids, name = ids_name ids, attrs = a, ips = [],
      remote_id = None, connected_endpoint_type = None\<rparr>"

definition base_vlan :: "vlan_ids \<Rightarrow> pydict \<Rightarrow> netbox_vlan" where
  "base_vlan ids a =
     \<lparr>site_name = ids_site_name ids, vid = ids_vid ids, vlan_attrs = a, vlan_remote_id = None\<rparr>"

definition base_cable :: "cable_ids \<Rightarrow> pydict \<Rightarrow> netbox_cable" where
  "base_cable ids a =
     \<lparr>device_a_name = ids_device_a_name ids, interface_a_name = ids_interface_a_name ids,
      device_z_name = ids_device_z_name ids, interface_z_name = ids_interface_z_name ids,
      cable_attrs = a, cable_remote_id = None\<rparr>"

text \<open>\<^verbatim>\<open>NetboxInterface.create\<close>, lines 125 to 131. The result is the reference of the new object.\<close>

definition interface_create :: "env \<Rightarrow> dsync \<Rightarrow> interface_ids \<Rightarrow> pydict \<Rightarrow> (exn + nat) \<times> dsync" where
  "interface_create e s ids a =
     (case new_interface (base_interface ids a) s of
        (item, s1) \<Rightarrow>
          (case translate_attrs_for_netbox e s1 (interface_objs s1 item) a of
             Inl x \<Rightarrow> (Inl x, s1)
           | Inr nb_params \<Rightarrow>
               (case remote e (Create Interfaces nb_params) s1 of
                  (r, s2) \<Rightarrow>
                    (case r of
                       Inl x \<Rightarrow> (Inl x, s2)
                     | Inr intf \<Rightarrow>
                         (case intf of
                            Record i \<Rightarrow>
                              (Inr item,
                               set_interface item (\<lambda>obj. obj\<lparr>remote_id := Some i\<rparr>)
                                 (log_msg DEBUG (CreatedInterface i) s2))
                          | _ \<Rightarrow> (Inl AttributeError, s2))))))"

text \<open>
  The two steps that update and delete share: fetch the record by the remote
  identifier, then invoke the method on it. A get that finds nothing returns
  \<^verbatim>\<open>None\<close>, on which the method call raises.
\<close>

definition on_record ::
    "env \<Rightarrow> endpoint \<Rightarrow> int option \<Rightarrow> (int \<Rightarrow> remote_call) \<Rightarrow> dsync \<Rightarrow> (exn + int) \<times> dsync" where
  "on_record e ep rid method s =
     (case remote e (Get ep rid) s of
        (r, s1) \<Rightarrow>
          (case r of
             Inl x \<Rightarrow> (Inl x, s1)
           | Inr rec \<Rightarrow>
               (case rec of
                  Record i \<Rightarrow>
                    (case remote e (method i) s1 of
                       (r2, s2) \<Rightarrow> (case r2 of Inl x \<Rightarrow> (Inl x, s2) | Inr _ \<Rightarrow> (Inr i, s2)))
                | _ \<Rightarrow> (Inl AttributeError, s1))))"

text \<open>\<^verbatim>\<open>NetboxInterface.update\<close>, lines 147 to 158.\<close>

definition interface_update :: "env \<Rightarrow> dsync \<Rightarrow> nat \<Rightarrow> pydict \<Rightarrow> (exn + nat) \<times> dsync" where
  "interface_update e s self a =
     (let current_attrs = attrs (interface_objs s self) in
      if a = current_attrs then (Inr self, s)
      else
        (case translate_attrs_for_netbox e s (interface_objs s self) a of
           Inl x \<Rightarrow> (Inl x, s)
         | Inr nb_params \<Rightarrow>
             (case on_record e Interfaces (remote_id (interface_objs s self))
                     (\<lambda>i. Update Interfaces i nb_params) s of
                (r, s1) \<Rightarrow>
                  (case r of
                     Inl x \<Rightarrow> (Inl x, s1)
                   | Inr _ \<Rightarrow>
                       (Inr self,
                        set_interface self (\<lambda>obj. obj\<lparr>attrs := attrs obj ++ a\<rparr>)
                          (log_msg INFO
                             (UpdatedInterface (device_name (interface_objs s self))
                                (name (interface_objs s self)) (remote_id (interface_objs s self)))
                             s1))))))"

text \<open>\<^verbatim>\<open>NetboxInterface.delete\<close>, lines 167 to 180.\<close>

definition interface_delete :: "env \<Rightarrow> dsync \<Rightarrow> nat \<Rightarrow> (exn + nat) \<times> dsync" where
  "interface_delete e s self =
     (let obj = interface_objs s self;
          proceed = (case on_record e Interfaces (remote_id obj) (Delete Interfaces) s of
                       (r, s1) \<Rightarrow> (case r of Inl x \<Rightarrow> (Inl x, s1) | Inr _ \<Rightarrow> (Inr self, s1)))
      in if ips obj \<noteq> [] then
           (case devices s (device_name obj) of
              None \<Rightarrow> (Inl AttributeError, s)
            | Some dev \<Rightarrow>
                if truthy_str (primary_ip dev) \<and> primary_ip dev \<in> set (map Some (ips obj)) then
                  (Inr self, log_msg WARNING (UnableToDeleteInterface (name obj) (dev_name dev)) s)
                else proceed)
         else proceed)"

subsection \<open>NetboxIPAddress\<close>

text \<open>\<^verbatim>\<open>NetboxIPAddress.delete\<close>, lines 213 to 226.\<close>

definition ip_address_delete ::
    "env \<Rightarrow> dsync \<Rightarrow> netbox_ip_address \<Rightarrow> (exn + netbox_ip_address) \<times> dsync" where
  "ip_address_delete e s self =
     (let proceed = (case on_record e IpAddresses (ip_remote_id self) (Delete IpAddresses) s of
                       (r, s1) \<Rightarrow> (case r of Inl x \<Rightarrow> (Inl x, s1) | Inr _ \<Rightarrow> (Inr self, s1)))
      in case ip_device_name self of
           None \<Rightarrow> proceed
         | Some d \<Rightarrow>
             if d \<noteq> [] then
               (case devices s d of
                  None \<Rightarrow> (Inl AttributeError, s)
                | Some dev \<Rightarrow>
                    if primary_ip dev = Some (address self) then
                      (Inr self,
                       log_msg WARNING (UnableToDeleteIPAddress (address self) (dev_name dev)) s)
                    else proceed)
             else proceed)"

subsection \<open>NetboxVlan\<close>

text \<open>Lines 264 to 267: the name sent to the remote system.\<close>

definition vlan_name :: "vlan_ids \<Rightarrow> pydict \<Rightarrow> pyval" where
  "vlan_name ids a =
     (case a ''name'' of
        None \<Rightarrow> PStr (''vlan-'' @ str_int (ids_vid ids))
      | Some n \<Rightarrow> if truthy n then n else PStr (''vlan-'' @ str_int (ids_vid ids)))"

text \<open>
  \<^verbatim>\<open>NetboxVlan.create\<close>, lines 262 to 278. The arguments of the remote call are
  evaluated before the call, so a site that the context does not hold raises
  before anything is sent.
\<close>

definition vlan_create ::
    "env \<Rightarrow> dsync \<Rightarrow> vlan_ids \<Rightarrow> pydict \<Rightarrow> (exn + netbox_vlan returned) \<times> dsync" where
  "vlan_create e s ids a =
     (case sites s (ids_site_name ids) of
        None \<Rightarrow> (Inl AttributeError, s)
      | Some site \<Rightarrow>
          (case remote e
                  (Create Vlans [''vid'' \<mapsto> PInt (ids_vid ids), ''name'' \<mapsto> vlan_name ids a,
                                 ''site'' \<mapsto> of_remote_id (site_remote_id site)]) s of
             (r, s1) \<Rightarrow>
               (case r of
                  Inl x \<Rightarrow>
                    if x = RequestError then
                      (Inr ReturnedFalse, log_msg WARNING (UnableToCreateVlan ids) s1)
                    else (Inl x, s1)
                | Inr vlan \<Rightarrow>
                    (case vlan of
                       Record i \<Rightarrow> (Inr (Item ((base_vlan ids a)\<lparr>vlan_remote_id := Some i\<rparr>)), s1)
                     | _ \<Rightarrow> (Inl AttributeError, s1)))))"

text \<open>
  \<^verbatim>\<open>NetboxVlan.update\<close>, lines 287 to 290. The method is looked up on the
  fetched record before \<^verbatim>\<open>attrs["name"]\<close> is evaluated.
\<close>

definition vlan_update ::
    "env \<Rightarrow> dsync \<Rightarrow> netbox_vlan \<Rightarrow> pydict \<Rightarrow> (exn + netbox_vlan) \<times> dsync" where
  "vlan_update e s self a =
     (case remote e (Get Vlans (vlan_remote_id self)) s of
        (r, s1) \<Rightarrow>
          (case r of
             Inl x \<Rightarrow> (Inl x, s1)
           | Inr vlan \<Rightarrow>
               (case vlan of
                  Record i \<Rightarrow>
                    (case a ''name'' of
                       None \<Rightarrow> (Inl (KeyError ''name''), s1)
                     | Some n \<Rightarrow>
                         (case remote e (Update Vlans i [''name'' \<mapsto> n]) s1 of
                            (r2, s2) \<Rightarrow>
                              (case r2 of
                                 Inl x \<Rightarrow> (Inl x, s2)
                               | Inr _ \<Rightarrow> (Inr (self\<lparr>vlan_attrs := vlan_attrs self ++ a\<rparr>), s2))))
                | _ \<Rightarrow> (Inl AttributeError, s1))))"

subsection \<open>NetboxCable\<close>

text \<open>
  Lines 305 to 320: the two endpoints. The second remote lookup hangs on an
  \<^verbatim>\<open>elif\<close>: it runs only when the first interface was found in the context.
\<close>

definition cable_endpoints ::
    "env \<Rightarrow> dsync \<Rightarrow> cable_ids \<Rightarrow> (nat option \<times> nat option) \<times> dsync" where
  "cable_endpoints e s ids =
     (let interface_a = get_interface s (Ident (ids_device_a_name ids) (ids_interface_a_name ids));
          interface_z = get_interface s (Ident (ids_device_z_name ids) (ids_interface_z_name ids))
      in if interface_a = None then
           (case get_intf_from_netbox e (ids_device_a_name ids) (ids_interface_a_name ids) s of
              (fetched, s1) \<Rightarrow> ((fetched, interface_z), s1))
         else if interface_z = None then
           (case get_intf_from_netbox e (ids_device_z_name ids) (ids_interface_z_name ids) s of
              (fetched, s1) \<Rightarrow> ((interface_a, fetched), s1))
         else ((interface_a, interface_z), s))"

text \<open>Lines 322 to 361, on the two endpoints once both are resolved.\<close>

definition cable_connect ::
    "env \<Rightarrow> dsync \<Rightarrow> cable_ids \<Rightarrow> pydict \<Rightarrow> nat \<Rightarrow> nat \<Rightarrow> (exn + netbox_cable returned) \<times> dsync" where
  "cable_connect e s ids a interface_a interface_z =
     (if truthy_str (connected_endpoint_type (interface_objs s interface_a)) then
        (Inr ReturnedFalse,
         log_msg INFO (PortAlreadyConnected (ids_device_a_name ids) (ids_interface_a_name ids)) s)
      else if truthy_str (connected_endpoint_type (interface_objs s interface_z)) then
        (Inr ReturnedFalse,
         log_msg INFO (PortAlreadyConnected (ids_device_z_name ids) (ids_interface_z_name ids)) s)
      else
        (case remote e
                (Create Cables
                   [''termination_a_type'' \<mapsto> PStr ''dcim.interface'',
                    ''termination_b_type'' \<mapsto> PStr ''dcim.interface'',
                    ''termination_a_id'' \<mapsto> of_remote_id (remote_id (interface_objs s interface_a)),
                    ''termination_b_id'' \<mapsto> of_remote_id (remote_id (interface_objs s interface_z))]) s of
           (r, s1) \<Rightarrow>
             (case r of
                Inl x \<Rightarrow>
                  if x = RequestError then
                    (Inr ReturnedFalse, log_msg WARNING (UnableToCreateCable ids) s1)
                  else (Inl x, s1)
              | Inr cable \<Rightarrow>
                  (let s2 = set_interface interface_z
                              (\<lambda>obj. obj\<lparr>connected_endpoint_type := Some ''dcim.interface''\<rparr>)
                              (set_interface interface_a
                                 (\<lambda>obj. obj\<lparr>connected_endpoint_type := Some ''dcim.interface''\<rparr>) s1)
                   in case cable of
                        Record i \<Rightarrow>
                          (Inr (Item ((base_cable ids a)\<lparr>cable_remote_id := Some i\<rparr>)),
                           log_msg INFO (CreatedCable i) s2)
                      | _ \<Rightarrow> (Inl AttributeError, s2)))))"

text \<open>\<^verbatim>\<open>NetboxCable.create\<close>, lines 305 to 361.\<close>

definition cable_create ::
    "env \<Rightarrow> dsync \<Rightarrow> cable_ids \<Rightarrow> pydict \<Rightarrow> (exn + netbox_cable returned) \<times> dsync" where
  "cable_create e s ids a =
     (case cable_endpoints e s ids of
        ((interface_a, interface_z), s1) \<Rightarrow>
          (case interface_a of
             None \<Rightarrow> (Inr ReturnedFalse, s1)
           | Some ra \<Rightarrow>
               (case interface_z of
                  None \<Rightarrow> (Inr ReturnedFalse, s1)
                | Some rz \<Rightarrow> cable_connect e s1 ids a ra rz)))"

text \<open>
  \<^verbatim>\<open>NetboxCable.delete\<close>, lines 369 to 371. What the method returns is
  \<^verbatim>\<open>cable\<close>, the record fetched from the remote system.
\<close>

definition cable_delete :: "env \<Rightarrow> dsync \<Rightarrow> netbox_cable \<Rightarrow> (exn + reply) \<times> dsync" where
  "cable_delete e s self =
     (case on_record e Cables (cable_remote_id self) (Delete Cables) s of
        (r, s1) \<Rightarrow> (case r of Inl x \<Rightarrow> (Inl x, s1) | Inr i \<Rightarrow> (Inr (Record i), s1)))"

text \<open>The remote calls a step has issued, and the creates among the calls.\<close>

definition issued :: "dsync \<Rightarrow> dsync \<Rightarrow> remote_call list" where
  "issued s s' = drop (length (remote_calls s)) (remote_calls s')"

fun is_create :: "remote_call \<Rightarrow> bool" where
  "is_create (Create ep kw) = True"
| "is_create c = False"

text \<open>Two cables join the same two interfaces when their endpoints agree, in either order.\<close>

definition cable_keys :: "cable_ids \<Rightarrow> lookup_key \<times> lookup_key" where
  "cable_keys ids =
     (Ident (ids_device_a_name ids) (ids_interface_a_name ids),
      Ident (ids_device_z_name ids) (ids_interface_z_name ids))"

definition same_interfaces :: "cable_ids \<Rightarrow> cable_ids \<Rightarrow> bool" where
  "same_interfaces ids ids' =
     (cable_keys ids' = cable_keys ids \<or> cable_keys ids' = prod.swap (cable_keys ids))"

subsection \<open>A small inventory\<close>

text \<open>
  Two switches with one interface each, one site and one VLAN; the first switch
  is managed through its interface. The remote system of \<open>ex_env\<close> accepts every
  call and knows no interface beyond the context's; the variants refuse every
  request, or know every interface.
\<close>

definition ex_sw1_eth0 :: netbox_interface where
  "ex_sw1_eth0 =
     \<lparr>device_name = ''sw1'', name = ''eth0'', attrs = [''mtu'' \<mapsto> PInt 1500],
      ips = [''10.0.0.1/24''], remote_id = Some 21, connected_endpoint_type = None\<rparr>"

definition ex_sw2_eth0 :: netbox_interface where
  "ex_sw2_eth0 =
     \<lparr>device_name = ''sw2'', name = ''eth0'', attrs = Map.empty,
      ips = [], remote_id = Some 22, connected_endpoint_type = None\<rparr>"

definition ex_vlan :: netbox_vlan where
  "ex_vlan =
     \<lparr>site_name = ''nyc'', vid = 10, vlan_attrs = [''name'' \<mapsto> PStr ''users''],
      vlan_remote_id = Some 110\<rparr>"

definition ex_dsync :: dsync where
  "ex_dsync =
     \<lparr>sites = [''nyc'' \<mapsto> \<lparr>site_remote_id = Some 1\<rparr>],
      devices = [''sw1'' \<mapsto> \<lparr>dev_name = ''sw1'', dev_remote_id = Some 11,
                              primary_ip = Some ''10.0.0.1/24''\<rparr>,
                 ''sw2'' \<mapsto> \<lparr>dev_name = ''sw2'', dev_remote_id = Some 12, primary_ip = None\<rparr>],
      vlans = [PStr ''10'' \<mapsto> ex_vlan],
      interface_index = [(Ident ''sw1'' ''eth0'', 0), (Ident ''sw2'' ''eth0'', 1)],
      interface_objs = (\<lambda>r. if r = 0 then ex_sw1_eth0 else ex_sw2_eth0),
      next_ref = 2,
      remote_calls = [],
      logged = []\<rparr>"

definition ex_netbox :: "remote_call list \<Rightarrow> remote_call \<Rightarrow> exn + reply" where
  "ex_netbox calls c =
     (case c of
        Create ep kw \<Rightarrow> Inr (Record 500)
      | Get ep rid \<Rightarrow> (case rid of None \<Rightarrow> Inr NoRecord | Some i \<Rightarrow> Inr (Record i))
      | Update ep i kw \<Rightarrow> Inr (Done True)
      | Delete ep i \<Rightarrow> Inr (Done True)
      | Lookup dev intf \<Rightarrow> Inr NoRecord)"

definition ex_env :: env where
  "ex_env = \<lparr>netbox = ex_netbox, netbox_interface_of = (\<lambda>calls dev intf. None),
             import_vlans = ''config''\<rparr>"

definition ex_env_refusing :: env where
  "ex_env_refusing = ex_env\<lparr>netbox := (\<lambda>calls c. Inl RequestError)\<rparr>"

definition ex_env_knowing :: env where
  "ex_env_knowing =
     ex_env\<lparr>netbox_interface_of :=
       (\<lambda>calls dev intf. Some \<lparr>device_name = dev, name = intf, attrs = Map.empty, ips = [],
                                remote_id = Some 30, connected_endpoint_type = None\<rparr>)\<rparr>"

definition ex_cable_ids :: cable_ids where
  "ex_cable_ids =
     \<lparr>ids_device_a_name = ''sw1'', ids_interface_a_name = ''eth0'',
      ids_device_z_name = ''sw2'', ids_interface_z_name = ''eth0''\<rparr>"

definition ex_ip :: netbox_ip_address where
  "ex_ip = \<lparr>address = ''10.0.0.1/24'', ip_device_name = Some ''sw1'', ip_remote_id = Some 41\<rparr>"

definition ex_cable :: netbox_cable where
  "ex_cable = (base_cable ex_cable_ids Map.empty)\<lparr>cable_remote_id := Some 7\<rparr>"

text \<open>The context with no interface in it, and the one whose first interface has the empty string as its connected-endpoint marker.\<close>

definition ex_dsync_no_interfaces :: dsync where
  "ex_dsync_no_interfaces = ex_dsync\<lparr>interface_index := []\<rparr>"

definition ex_dsync_empty_marker :: dsync where
  "ex_dsync_empty_marker =
     ex_dsync\<lparr>interface_objs :=
       (\<lambda>r. if r = 0 then ex_sw1_eth0\<lparr>connected_endpoint_type := Some ''''\<rparr> else ex_sw2_eth0)\<rparr>"

section \<open>Properties\<close>

subsection \<open>The attribute translator\<close>

lemma translate_basic_type:
  "translate_basic s self a = Inr nb \<Longrightarrow>
   nb ''type'' = Some (PStr (if has_truthy a ''is_lag'' then ''lag''
                              else if has_truthy a ''is_virtual'' then ''virtual'' else ''other''))"
  unfolding translate_basic_def Let_def
  by (cases "devices s (device_name self)") (simp_all split: option.splits, auto)

lemma translate_basic_fresh:
  "translate_basic s self a = Inr nb \<Longrightarrow>
   nb ''untagged_vlan'' = None \<and> nb ''tagged_vlans'' = None \<and> nb ''lag'' = None"
  unfolding translate_basic_def Let_def
  by (cases "devices s (device_name self)") (simp_all split: option.splits, auto)

lemma translate_untagged_frame:
  "translate_untagged s a nb = Inr nb' \<Longrightarrow> k \<noteq> ''untagged_vlan'' \<Longrightarrow> nb' k = nb k"
  unfolding translate_untagged_def
  by (auto split: if_splits option.splits)

lemma translate_tagged_frame:
  "translate_tagged s a nb = Inr nb' \<Longrightarrow> k \<noteq> ''tagged_vlans'' \<Longrightarrow> nb' k = nb k"
  unfolding translate_tagged_def
  by (auto split: if_splits sum.splits option.splits)

lemma translate_lag_frame:
  "translate_lag s a nb = Inr nb' \<Longrightarrow> k \<noteq> ''lag'' \<Longrightarrow> nb' k = nb k"
  unfolding translate_lag_def
  by (auto split: if_splits option.splits)

lemma translate_stages:
  assumes "translate_attrs_for_netbox e s self a = Inr out"
  obtains (stages) nb nb1 nb2 where "translate_basic s self a = Inr nb"
    and "import_vlans e \<noteq> ''no'' \<Longrightarrow> translate_untagged s a nb = Inr nb1"
    and "import_vlans e \<noteq> ''no'' \<Longrightarrow> translate_tagged s a nb1 = Inr nb2"
    and "import_vlans e = ''no'' \<Longrightarrow> nb2 = nb"
    and "translate_lag s a nb2 = Inr out"
proof (cases "import_vlans e = ''no''")
  case True
  with assms that show ?thesis
    unfolding translate_attrs_for_netbox_def by (simp split: sum.splits)
next
  case False
  with assms that show ?thesis
    unfolding translate_attrs_for_netbox_def by (simp split: sum.splits)
qed

lemma translate_frame:
  assumes "translate_attrs_for_netbox e s self a = Inr out"
    and "translate_basic s self a = Inr nb"
    and "k \<noteq> ''untagged_vlan''" and "k \<noteq> ''tagged_vlans''" and "k \<noteq> ''lag''"
  shows "out k = nb k"
  using assms(1)
proof (cases rule: translate_stages)
  case (stages nb' nb1 nb2)
  from stages(1) assms(2) have eq: "nb' = nb" by simp
  have "nb2 k = nb k"
  proof (cases "import_vlans e = ''no''")
    case True
    with stages(4) eq show ?thesis by simp
  next
    case False
    from translate_tagged_frame [OF stages(3) [OF False] assms(4)]
      translate_untagged_frame [OF stages(2) [OF False] assms(3)] eq
    show ?thesis by simp
  qed
  with translate_lag_frame [OF stages(5) assms(5)] show ?thesis by simp
qed


lemma translate_basic_untagged_absent:
  "translate_basic s self a = Inr nb \<Longrightarrow> nb ''untagged_vlan'' = None"
  by (simp add: translate_basic_fresh)

text \<open>
  C9. The translator sets type "lag" whenever is_lag is true, whatever
  is_virtual says; with is_lag false or absent and is_virtual true it sets
  "virtual"; otherwise the default "other". This holds of every translation that
  returns parameters.
\<close>

theorem interface_type_priority:
  assumes "translate_attrs_for_netbox e s self a = Inr out"
  shows "out ''type'' =
           Some (PStr (if has_truthy a ''is_lag'' then ''lag''
                       else if has_truthy a ''is_virtual'' then ''virtual'' else ''other''))"
proof -
  from assms obtain nb where b: "translate_basic s self a = Inr nb"
    by (rule translate_stages)
  from translate_frame [OF assms b, of "''type''"] translate_basic_type [OF b]
  show ?thesis by simp
qed

lemma ex_translate_basic:
  "\<exists>nb. translate_basic ex_dsync ex_sw1_eth0 a = Inr nb"
  by (simp add: translate_basic_def ex_dsync_def ex_sw1_eth0_def Let_def)

lemma ex_translate_lag_virtual:
  "\<exists>out. translate_attrs_for_netbox ex_env ex_dsync ex_sw1_eth0
            [''is_lag'' \<mapsto> PBool True, ''is_virtual'' \<mapsto> PBool True] = Inr out"
proof -
  obtain nb where "translate_basic ex_dsync ex_sw1_eth0
      [''is_lag'' \<mapsto> PBool True, ''is_virtual'' \<mapsto> PBool True] = Inr nb"
    using ex_translate_basic by blast
  then show ?thesis
    by (simp add: translate_attrs_for_netbox_def translate_untagged_def translate_tagged_def
        translate_lag_def mode_in_def)
qed

theorem interface_type_priority_witness:
  "\<exists>out. translate_attrs_for_netbox ex_env ex_dsync ex_sw1_eth0
            [''is_lag'' \<mapsto> PBool True, ''is_virtual'' \<mapsto> PBool True] = Inr out
         \<and> out ''type'' = Some (PStr ''lag'')"
proof -
  obtain out where out: "translate_attrs_for_netbox ex_env ex_dsync ex_sw1_eth0
      [''is_lag'' \<mapsto> PBool True, ''is_virtual'' \<mapsto> PBool True] = Inr out"
    using ex_translate_lag_virtual by blast
  from interface_type_priority [OF out] have "out ''type'' = Some (PStr ''lag'')"
    by (simp add: has_truthy_def)
  with out show ?thesis by blast
qed

lemma translate_lag_raises:
  assumes "has_truthy a ''is_lag_member''"
    and "case a ''parent'' of None \<Rightarrow> True | Some p \<Rightarrow> get_interface s (Uid p) = None"
  shows "\<exists>x. translate_lag s a nb = Inl x"
  using assms unfolding translate_lag_def has_truthy_def
  by (auto split: option.splits)

lemma translate_raises_if_lag_raises:
  assumes "\<And>nb. \<exists>x. translate_lag s a nb = Inl x"
  shows "\<exists>x. translate_attrs_for_netbox e s self a = Inl x"
proof (cases "translate_attrs_for_netbox e s self a")
  case (Inl x)
  then show ?thesis by blast
next
  case (Inr out)
  then obtain nb2 where "translate_lag s a nb2 = Inr out"
    by (rule translate_stages)
  with assms [of nb2] show ?thesis by auto
qed

lemma get_interface_new_interface:
  "new_interface obj s = (r, s1) \<Longrightarrow> get_interface s1 k = get_interface s k"
  by (auto simp: new_interface_def get_interface_def)

lemma remote_calls_new_interface:
  "new_interface obj s = (r, s1) \<Longrightarrow> remote_calls s1 = remote_calls s"
  by (auto simp: new_interface_def)

text \<open>
  C10. With is_lag_member true and a parent that the context cannot resolve (or
  no parent attribute at all), the translator raises; the enclosing create raises
  before it has issued any remote call, and so does every update that reaches the
  translator, that is, one whose candidate attributes differ from the recorded ones.
\<close>

theorem lag_parent_unresolved_raises:
  assumes "has_truthy a ''is_lag_member''"
    and "case a ''parent'' of None \<Rightarrow> True | Some p \<Rightarrow> get_interface s (Uid p) = None"
  shows "(\<exists>x. translate_attrs_for_netbox e s self a = Inl x)
       \<and> (\<exists>x s'. interface_create e s ids a = (Inl x, s') \<and> issued s s' = [])
       \<and> (a \<noteq> attrs (interface_objs s r) \<longrightarrow> (\<exists>x. interface_update e s r a = (Inl x, s)))"
proof (intro conjI impI)
  have lag: "\<exists>x. translate_lag s a nb = Inl x" for nb
    using assms by (rule translate_lag_raises)
  show "\<exists>x. translate_attrs_for_netbox e s self a = Inl x"
    using lag by (rule translate_raises_if_lag_raises)
  show "\<exists>x s'. interface_create e s ids a = (Inl x, s') \<and> issued s s' = []"
  proof -
    obtain item s1 where n: "new_interface (base_interface ids a) s = (item, s1)"
      by (cases "new_interface (base_interface ids a) s")
    from assms(2) have "case a ''parent'' of None \<Rightarrow> True | Some p \<Rightarrow> get_interface s1 (Uid p) = None"
      by (simp add: get_interface_new_interface [OF n] split: option.splits)
    with assms(1) have "\<exists>x. translate_lag s1 a nb = Inl x" for nb
      by (rule translate_lag_raises)
    then obtain x where "translate_attrs_for_netbox e s1 (interface_objs s1 item) a = Inl x"
      using translate_raises_if_lag_raises by blast
    with n have "interface_create e s ids a = (Inl x, s1)"
      by (simp add: interface_create_def)
    moreover have "issued s s1 = []"
      by (simp add: issued_def remote_calls_new_interface [OF n])
    ultimately show ?thesis by blast
  qed
  assume "a \<noteq> attrs (interface_objs s r)"
  moreover obtain x where "translate_attrs_for_netbox e s (interface_objs s r) a = Inl x"
    using lag translate_raises_if_lag_raises by blast
  ultimately show "\<exists>x. interface_update e s r a = (Inl x, s)"
    by (simp add: interface_update_def)
qed

theorem lag_parent_unresolved_raises_witness:
  "has_truthy [''is_lag_member'' \<mapsto> PBool True, ''parent'' \<mapsto> PStr ''sw1__po1''] ''is_lag_member''
   \<and> get_interface ex_dsync (Uid (PStr ''sw1__po1'')) = None
   \<and> [''is_lag_member'' \<mapsto> PBool True, ''parent'' \<mapsto> PStr ''sw1__po1''] \<noteq> attrs (interface_objs ex_dsync 0)
   \<and> (\<exists>x. translate_attrs_for_netbox ex_env ex_dsync ex_sw1_eth0
              [''is_lag_member'' \<mapsto> PBool True, ''parent'' \<mapsto> PStr ''sw1__po1''] = Inl x)
   \<and> (\<exists>x s'. interface_create ex_env ex_dsync \<lparr>ids_device_name = ''sw1'', ids_name = ''eth1''\<rparr>
              [''is_lag_member'' \<mapsto> PBool True, ''parent'' \<mapsto> PStr ''sw1__po1''] = (Inl x, s')
            \<and> issued ex_dsync s' = [])
   \<and> (\<exists>x. interface_update ex_env ex_dsync 0
              [''is_lag_member'' \<mapsto> PBool True, ''parent'' \<mapsto> PStr ''sw1__po1''] = (Inl x, ex_dsync))"
proof -
  let ?a = "[''is_lag_member'' \<mapsto> PBool True, ''parent'' \<mapsto> PStr ''sw1__po1'']"
  have h1: "has_truthy ?a ''is_lag_member''"
    by (simp add: has_truthy_def)
  have g: "get_interface ex_dsync (Uid (PStr ''sw1__po1'')) = None"
    by (simp add: get_interface_def ex_dsync_def)
  then have h2: "case ?a ''parent'' of None \<Rightarrow> True | Some p \<Rightarrow> get_interface ex_dsync (Uid p) = None"
    by simp
  have "?a ''parent'' \<noteq> attrs (interface_objs ex_dsync 0) ''parent''"
    by (simp add: ex_dsync_def ex_sw1_eth0_def)
  then have h3: "?a \<noteq> attrs (interface_objs ex_dsync 0)"
    by metis
  from lag_parent_unresolved_raises [OF h1 h2, of ex_env ex_sw1_eth0
      "\<lparr>ids_device_name = ''sw1'', ids_name = ''eth1''\<rparr>" 0] h1 g h3
  show ?thesis by blast
qed

lemma translate_untagged_sets:
  assumes "translate_untagged s a nb = Inr nb1" and "mode_in a [''TRUNK'', ''ACCESS'']"
    and "a ''access_vlan'' = Some v"
  shows "nb1 ''untagged_vlan'' = Some (if truthy v then convert_vlan_to_nid s v else PNone)"
  using assms unfolding translate_untagged_def by (auto split: if_splits)

lemma translate_untagged_skips:
  assumes "translate_untagged s a nb = Inr nb1" and "\<not> mode_in a [''TRUNK'', ''ACCESS'']"
  shows "nb1 = nb"
  using assms unfolding translate_untagged_def by simp

lemma translate_untagged_value:
  assumes "translate_attrs_for_netbox e s self a = Inr out" and "import_vlans e \<noteq> ''no''"
    and "mode_in a [''TRUNK'', ''ACCESS'']" and "a ''access_vlan'' = Some v"
  shows "out ''untagged_vlan'' = Some (if truthy v then convert_vlan_to_nid s v else PNone)"
  using assms(1)
proof (cases rule: translate_stages)
  case (stages nb nb1 nb2)
  from translate_untagged_sets [OF stages(2) [OF assms(2)] assms(3,4)]
  have "nb1 ''untagged_vlan'' = Some (if truthy v then convert_vlan_to_nid s v else PNone)" .
  moreover from translate_tagged_frame [OF stages(3) [OF assms(2)], of "''untagged_vlan''"]
  have "nb2 ''untagged_vlan'' = nb1 ''untagged_vlan''" by simp
  moreover from translate_lag_frame [OF stages(5), of "''untagged_vlan''"]
  have "out ''untagged_vlan'' = nb2 ''untagged_vlan''" by simp
  ultimately show ?thesis by simp
qed

lemma translate_untagged_absent:
  assumes "translate_attrs_for_netbox e s self a = Inr out" and "a ''mode'' = None"
  shows "out ''untagged_vlan'' = None"
  using assms(1)
proof (cases rule: translate_stages)
  case (stages nb nb1 nb2)
  have m: "\<not> mode_in a [''TRUNK'', ''ACCESS'']"
    using assms(2) by (simp add: mode_in_def)
  have "nb2 ''untagged_vlan'' = nb ''untagged_vlan''"
  proof (cases "import_vlans e = ''no''")
    case True
    with stages(4) show ?thesis by simp
  next
    case False
    from translate_untagged_skips [OF stages(2) [OF False] m]
      translate_tagged_frame [OF stages(3) [OF False], of "''untagged_vlan''"]
    show ?thesis by simp
  qed
  moreover from translate_lag_frame [OF stages(5), of "''untagged_vlan''"]
  have "out ''untagged_vlan'' = nb2 ''untagged_vlan''" by simp
  ultimately show ?thesis
    using translate_basic_untagged_absent [OF stages(1)] by simp
qed

lemma ex_translate_returns:
  assumes "a ''is_lag_member'' = None" and "a ''allowed_vlans'' = None"
    and "a ''access_vlan'' \<noteq> None"
  shows "\<exists>out. translate_attrs_for_netbox e ex_dsync ex_sw1_eth0 a = Inr out"
proof -
  obtain nb where "translate_basic ex_dsync ex_sw1_eth0 a = Inr nb"
    using ex_translate_basic by blast
  with assms show ?thesis
    by (auto simp: translate_attrs_for_netbox_def translate_untagged_def translate_tagged_def
        translate_lag_def)
qed

text \<open>
  C6, as the specification states it, fails: the VLAN fields hang on the
  attribute \<open>mode\<close>, not on \<open>switchport_mode\<close>. With VLAN import enabled,
  switchport_mode "ACCESS", access_vlan "10" and VLAN 10 in the context, the
  translator returns parameters without any untagged_vlan.
\<close>

theorem untagged_vlan_switchport_mode_counterexample:
  "import_vlans ex_env \<noteq> ''no''
   \<and> vlans ex_dsync (PStr ''10'') = Some ex_vlan
   \<and> (\<exists>out. translate_attrs_for_netbox ex_env ex_dsync ex_sw1_eth0
               [''switchport_mode'' \<mapsto> PStr ''ACCESS'', ''access_vlan'' \<mapsto> PStr ''10''] = Inr out
             \<and> out ''untagged_vlan'' = None)"
proof -
  let ?a = "[''switchport_mode'' \<mapsto> PStr ''ACCESS'', ''access_vlan'' \<mapsto> PStr ''10'']"
  obtain out where out: "translate_attrs_for_netbox ex_env ex_dsync ex_sw1_eth0 ?a = Inr out"
    using ex_translate_returns [of ?a ex_env] by auto
  from translate_untagged_absent [OF out] have "out ''untagged_vlan'' = None" by simp
  with out show ?thesis
    by (auto simp: ex_env_def ex_dsync_def)
qed

text \<open>
  C6, amended. With VLAN import enabled and the attribute \<open>mode\<close> (not
  \<open>switchport_mode\<close>) equal to "ACCESS" or "TRUNK": when access_vlan is set
  and names a VLAN of the context, the returned parameters hold that VLAN's
  remote identifier as untagged_vlan; when access_vlan is present but null (or
  otherwise falsy), they hold an explicit null untagged_vlan.
\<close>

theorem untagged_vlan_by_mode:
  assumes "import_vlans e \<noteq> ''no''"
    and "a ''mode'' = Some (PStr m)" and "m = ''ACCESS'' \<or> m = ''TRUNK''"
    and "a ''access_vlan'' = Some v"
    and "translate_attrs_for_netbox e s self a = Inr out"
  shows "(truthy v \<and> vlans s v = Some vlan
            \<longrightarrow> out ''untagged_vlan'' = Some (of_remote_id (vlan_remote_id vlan)))
       \<and> (\<not> truthy v \<longrightarrow> out ''untagged_vlan'' = Some PNone)"
proof -
  from assms(2,3) have "mode_in a [''TRUNK'', ''ACCESS'']"
    by (auto simp: mode_in_def)
  from translate_untagged_value [OF assms(5,1) this assms(4)]
  show ?thesis by (simp add: convert_vlan_to_nid_def)
qed

theorem untagged_vlan_by_mode_witness:
  "import_vlans ex_env \<noteq> ''no''
   \<and> vlans ex_dsync (PStr ''10'') = Some ex_vlan
   \<and> (\<exists>out. translate_attrs_for_netbox ex_env ex_dsync ex_sw1_eth0
               [''mode'' \<mapsto> PStr ''ACCESS'', ''access_vlan'' \<mapsto> PStr ''10''] = Inr out
             \<and> out ''untagged_vlan'' = Some (PInt 110))
   \<and> (\<exists>out. translate_attrs_for_netbox ex_env ex_dsync ex_sw1_eth0
               [''mode'' \<mapsto> PStr ''ACCESS'', ''access_vlan'' \<mapsto> PNone] = Inr out
             \<and> out ''untagged_vlan'' = Some PNone)"
proof -
  let ?a = "[''mode'' \<mapsto> PStr ''ACCESS'', ''access_vlan'' \<mapsto> PStr ''10'']"
  let ?b = "[''mode'' \<mapsto> PStr ''ACCESS'', ''access_vlan'' \<mapsto> PNone]"
  have e: "import_vlans ex_env \<noteq> ''no''" by (simp add: ex_env_def)
  have v: "vlans ex_dsync (PStr ''10'') = Some ex_vlan" by (simp add: ex_dsync_def)
  obtain out where out: "translate_attrs_for_netbox ex_env ex_dsync ex_sw1_eth0 ?a = Inr out"
    using ex_translate_returns [of ?a ex_env] by auto
  obtain out' where out': "translate_attrs_for_netbox ex_env ex_dsync ex_sw1_eth0 ?b = Inr out'"
    using ex_translate_returns [of ?b ex_env] by auto
  from untagged_vlan_by_mode [OF e _ _ _ out, of "''ACCESS''" "PStr ''10''" ex_vlan] v
  have "out ''untagged_vlan'' = Some (PInt 110)"
    by (simp add: ex_vlan_def)
  moreover from untagged_vlan_by_mode [OF e _ _ _ out', of "''ACCESS''" PNone]
  have "out' ''untagged_vlan'' = Some PNone"
    by simp
  ultimately show ?thesis using e v out out' by blast
qed

subsection \<open>NetboxVlan: the default name and the conflict on create\<close>

lemma vlan_name_default:
  assumes "a ''name'' = None \<or> (\<exists>v. a ''name'' = Some v \<and> \<not> truthy v)"
  shows "vlan_name ids a = PStr (''vlan-'' @ str_int (ids_vid ids))"
  using assms by (auto simp: vlan_name_def)

lemma str_int_20: "str_int 20 = ''20''"
  by code_simp

lemma vlan_create_calls:
  assumes "sites s (ids_site_name ids) = Some site"
  shows "remote_calls (snd (vlan_create e s ids a)) =
           remote_calls s @
             [Create Vlans [''vid'' \<mapsto> PInt (ids_vid ids), ''name'' \<mapsto> vlan_name ids a,
                            ''site'' \<mapsto> of_remote_id (site_remote_id site)]]"
  using assms
  by (simp add: vlan_create_def remote_def log_msg_def split: sum.splits reply.splits)

text \<open>
  C8. A VLAN create with no name attribute, or with a name that is present but
  falsy, sends the default name "vlan-" followed by the VLAN id in decimal to
  the remote system: the one call it issues is the create with that name. For VLAN
  id 20 the name is "vlan-20". (The site is in the context; without it the
  create raises before anything is sent.)
\<close>

theorem vlan_default_name:
  assumes "sites s (ids_site_name ids) = Some site"
    and "a ''name'' = None \<or> (\<exists>v. a ''name'' = Some v \<and> \<not> truthy v)"
  shows "issued s (snd (vlan_create e s ids a)) =
           [Create Vlans [''vid'' \<mapsto> PInt (ids_vid ids),
                          ''name'' \<mapsto> PStr (''vlan-'' @ str_int (ids_vid ids)),
                          ''site'' \<mapsto> of_remote_id (site_remote_id site)]]
       \<and> (ids_vid ids = 20 \<longrightarrow> vlan_name ids a = PStr ''vlan-20'')"
proof -
  have "vlan_name ids a = PStr (''vlan-'' @ str_int (ids_vid ids))"
    using assms(2) by (rule vlan_name_default)
  with vlan_create_calls [OF assms(1), of e a] show ?thesis
    by (simp add: issued_def str_int_20)
qed

theorem vlan_default_name_witness:
  "sites ex_dsync ''nyc'' = Some \<lparr>site_remote_id = Some 1\<rparr>
   \<and> issued ex_dsync (snd (vlan_create ex_env ex_dsync \<lparr>ids_site_name = ''nyc'', ids_vid = 20\<rparr> Map.empty)) =
       [Create Vlans [''vid'' \<mapsto> PInt 20, ''name'' \<mapsto> PStr ''vlan-20'', ''site'' \<mapsto> PInt 1]]
   \<and> issued ex_dsync (snd (vlan_create ex_env ex_dsync \<lparr>ids_site_name = ''nyc'', ids_vid = 20\<rparr>
                             [''name'' \<mapsto> PStr ''''])) =
       [Create Vlans [''vid'' \<mapsto> PInt 20, ''name'' \<mapsto> PStr ''vlan-20'', ''site'' \<mapsto> PInt 1]]"
proof -
  have s: "sites ex_dsync (ids_site_name \<lparr>ids_site_name = ''nyc'', ids_vid = 20\<rparr>)
             = Some \<lparr>site_remote_id = Some 1\<rparr>"
    by (simp add: ex_dsync_def)
  have n1: "Map.empty ''name'' = None \<or> (\<exists>v. (Map.empty :: pydict) ''name'' = Some v \<and> \<not> truthy v)"
    by simp
  have n2: "[''name'' \<mapsto> PStr ''''] ''name'' = None
            \<or> (\<exists>v. [''name'' \<mapsto> PStr ''''] ''name'' = Some v \<and> \<not> truthy v)"
    by simp
  have "issued ex_dsync (snd (vlan_create ex_env ex_dsync \<lparr>ids_site_name = ''nyc'', ids_vid = 20\<rparr> Map.empty)) =
       [Create Vlans [''vid'' \<mapsto> PInt 20, ''name'' \<mapsto> PStr ''vlan-20'', ''site'' \<mapsto> PInt 1]]"
    using vlan_default_name [where a = Map.empty and e = ex_env, OF s] n1
    by (simp add: str_int_20)
  moreover
  have "issued ex_dsync (snd (vlan_create ex_env ex_dsync \<lparr>ids_site_name = ''nyc'', ids_vid = 20\<rparr>
                             [''name'' \<mapsto> PStr ''''])) =
       [Create Vlans [''vid'' \<mapsto> PInt 20, ''name'' \<mapsto> PStr ''vlan-20'', ''site'' \<mapsto> PInt 1]]"
    using vlan_default_name [where a = "[''name'' \<mapsto> PStr '''']" and e = ex_env, OF s] n2
    by (simp add: str_int_20)
  ultimately show ?thesis using s by simp
qed

text \<open>
  C5. When the remote client answers the VLAN create with its request error,
  the create returns the failure sentinel instead of raising and logs a warning.
  Nothing else changes: no entity is built, so no remote identifier is recorded,
  and the context is as it was.
\<close>

theorem vlan_create_conflict:
  assumes "sites s (ids_site_name ids) = Some site"
    and "netbox e (remote_calls s)
           (Create Vlans [''vid'' \<mapsto> PInt (ids_vid ids), ''name'' \<mapsto> vlan_name ids a,
                          ''site'' \<mapsto> of_remote_id (site_remote_id site)]) = Inl RequestError"
  shows "vlan_create e s ids a =
           (Inr ReturnedFalse,
            s\<lparr>remote_calls := remote_calls s @
                 [Create Vlans [''vid'' \<mapsto> PInt (ids_vid ids), ''name'' \<mapsto> vlan_name ids a,
                                ''site'' \<mapsto> of_remote_id (site_remote_id site)]],
              logged := logged s @ [(WARNING, UnableToCreateVlan ids)]\<rparr>)"
  using assms by (simp add: vlan_create_def remote_def log_msg_def)

theorem vlan_create_conflict_witness:
  "vlan_create ex_env_refusing ex_dsync \<lparr>ids_site_name = ''nyc'', ids_vid = 10\<rparr> Map.empty =
     (Inr ReturnedFalse,
      ex_dsync\<lparr>remote_calls :=
                 [Create Vlans [''vid'' \<mapsto> PInt 10, ''name'' \<mapsto> PStr ''vlan-10'', ''site'' \<mapsto> PInt 1]],
               logged := [(WARNING, UnableToCreateVlan \<lparr>ids_site_name = ''nyc'', ids_vid = 10\<rparr>)]\<rparr>)"
proof -
  have s: "sites ex_dsync (ids_site_name \<lparr>ids_site_name = ''nyc'', ids_vid = 10\<rparr>)
             = Some \<lparr>site_remote_id = Some 1\<rparr>"
    by (simp add: ex_dsync_def)
  have n: "vlan_name \<lparr>ids_site_name = ''nyc'', ids_vid = 10\<rparr> Map.empty = PStr ''vlan-10''"
    by code_simp
  have r: "remote_calls ex_dsync = []" "logged ex_dsync = []"
    by (simp_all add: ex_dsync_def)
  from vlan_create_conflict [OF s, of ex_env_refusing Map.empty]
  show ?thesis by (simp add: ex_env_refusing_def n r)
qed

subsection \<open>Deletes, the update of a VLAN, and the endpoints of a cable\<close>

text \<open>
  C2. An interface whose IP addresses include the designated primary IP of its
  device (one that is set and not the empty string), and an IP address that is
  the primary IP of its device, are not deleted: delete logs a warning and
  returns the entity. The state changes in the log only, so no remote call is
  issued and the entity is as it was.
\<close>

theorem protected_delete_refused:
  "(devices s (device_name (interface_objs s r)) = Some dev
      \<and> primary_ip dev = Some ip \<and> ip \<noteq> [] \<and> ip \<in> set (ips (interface_objs s r))
    \<longrightarrow> interface_delete e s r =
          (Inr r,
           s\<lparr>logged := logged s @
               [(WARNING, UnableToDeleteInterface (name (interface_objs s r)) (dev_name dev))]\<rparr>))
   \<and> (ip_device_name self = Some d \<and> d \<noteq> [] \<and> devices s d = Some dev'
      \<and> primary_ip dev' = Some (address self)
    \<longrightarrow> ip_address_delete e s self =
          (Inr self,
           s\<lparr>logged := logged s @
               [(WARNING, UnableToDeleteIPAddress (address self) (dev_name dev'))]\<rparr>))"
proof (intro conjI impI)
  assume "devices s (device_name (interface_objs s r)) = Some dev
      \<and> primary_ip dev = Some ip \<and> ip \<noteq> [] \<and> ip \<in> set (ips (interface_objs s r))"
  then show "interface_delete e s r =
          (Inr r,
           s\<lparr>logged := logged s @
               [(WARNING, UnableToDeleteInterface (name (interface_objs s r)) (dev_name dev))]\<rparr>)"
    by (auto simp: interface_delete_def Let_def log_msg_def)
next
  assume "ip_device_name self = Some d \<and> d \<noteq> [] \<and> devices s d = Some dev'
      \<and> primary_ip dev' = Some (address self)"
  then show "ip_address_delete e s self =
          (Inr self,
           s\<lparr>logged := logged s @
               [(WARNING, UnableToDeleteIPAddress (address self) (dev_name dev'))]\<rparr>)"
    by (simp add: ip_address_delete_def Let_def log_msg_def)
qed

theorem protected_delete_refused_witness:
  "interface_delete ex_env ex_dsync 0 =
     (Inr 0, ex_dsync\<lparr>logged := [(WARNING, UnableToDeleteInterface ''eth0'' ''sw1'')]\<rparr>)
   \<and> ip_address_delete ex_env ex_dsync ex_ip =
     (Inr ex_ip, ex_dsync\<lparr>logged := [(WARNING, UnableToDeleteIPAddress ''10.0.0.1/24'' ''sw1'')]\<rparr>)"
proof -
  let ?dev = "\<lparr>dev_name = ''sw1'', dev_remote_id = Some 11, primary_ip = Some ''10.0.0.1/24''\<rparr>"
  have h1: "devices ex_dsync (device_name (interface_objs ex_dsync 0)) = Some ?dev
      \<and> primary_ip ?dev = Some ''10.0.0.1/24'' \<and> ''10.0.0.1/24'' \<noteq> []
      \<and> ''10.0.0.1/24'' \<in> set (ips (interface_objs ex_dsync 0))"
    by (simp add: ex_dsync_def ex_sw1_eth0_def)
  have h2: "ip_device_name ex_ip = Some ''sw1'' \<and> ''sw1'' \<noteq> [] \<and> devices ex_dsync ''sw1'' = Some ?dev
      \<and> primary_ip ?dev = Some (address ex_ip)"
    by (simp add: ex_dsync_def ex_ip_def)
  have l: "logged ex_dsync = []"
    by (simp add: ex_dsync_def)
  have n: "name (interface_objs ex_dsync 0) = ''eth0''" "address ex_ip = ''10.0.0.1/24''"
    by (simp_all add: ex_dsync_def ex_sw1_eth0_def ex_ip_def)
  from protected_delete_refused [of ex_dsync 0 ?dev "''10.0.0.1/24''" ex_env ex_ip "''sw1''" ?dev]
    h1 h2
  show ?thesis by (simp add: l n)
qed

lemma interface_update_identical:
  "interface_update e s r (attrs (interface_objs s r)) = (Inr r, s)"
  by (simp add: interface_update_def)

text \<open>
  C1 holds of the interface (the lemma above) and fails on the VLAN:
  \<^verbatim>\<open>NetboxVlan.update\<close> has no comparison with the recorded attributes. Updating
  the VLAN of the inventory with exactly its recorded attributes fetches the
  remote record and pushes the name.
\<close>

theorem vlan_update_identical_issues_calls:
  "vlan_update ex_env ex_dsync ex_vlan (vlan_attrs ex_vlan) =
     (Inr ex_vlan,
      ex_dsync\<lparr>remote_calls := [Get Vlans (Some 110), Update Vlans 110 [''name'' \<mapsto> PStr ''users'']]\<rparr>)"
proof -
  have "vlan_attrs ex_vlan ++ vlan_attrs ex_vlan = vlan_attrs ex_vlan"
    by (rule ext) (simp add: map_add_def split: option.splits)
  then show ?thesis
    by (simp add: vlan_update_def remote_def ex_env_def ex_netbox_def ex_vlan_def ex_dsync_def)
qed

text \<open>
  C7 fails in what the delete returns: \<^verbatim>\<open>NetboxCable.delete\<close> returns
  \<^verbatim>\<open>cable\<close>, the record it has fetched from the remote system, where the
  interface and IP address deletes return \<^verbatim>\<open>self\<close>.
\<close>

theorem cable_delete_returns_remote_record:
  "cable_delete ex_env ex_dsync ex_cable =
     (Inr (Record 7), ex_dsync\<lparr>remote_calls := [Get Cables (Some 7), Delete Cables 7]\<rparr>)"
  by (simp add: cable_delete_def on_record_def remote_def ex_env_def ex_netbox_def ex_cable_def
      ex_dsync_def)

text \<open>
  C4 fails on the second endpoint: the remote lookup of interface Z hangs on an
  \<^verbatim>\<open>elif\<close>. With neither interface in the context and a remote system that
  knows both, the create looks up interface A only and returns the failure
  sentinel.
\<close>

theorem cable_create_skips_second_lookup:
  "netbox_interface_of ex_env_knowing [Lookup ''sw1'' ''eth0''] ''sw2'' ''eth0'' \<noteq> None
   \<and> fst (cable_create ex_env_knowing ex_dsync_no_interfaces ex_cable_ids Map.empty) = Inr ReturnedFalse
   \<and> remote_calls (snd (cable_create ex_env_knowing ex_dsync_no_interfaces ex_cable_ids Map.empty))
       = [Lookup ''sw1'' ''eth0'']"
  by (simp add: cable_create_def cable_endpoints_def get_intf_from_netbox_def new_interface_def
      get_interface_def ex_env_knowing_def ex_env_def ex_dsync_no_interfaces_def ex_dsync_def
      ex_cable_ids_def Let_def)

subsection \<open>NetboxCable: the guard of create\<close>

lemma get_interface_allocated:
  assumes "refs_allocated s" and "get_interface s k = Some r"
  shows "r < next_ref s"
proof -
  from assms(2) have "(k, r) \<in> set (interface_index s)"
    unfolding get_interface_def by (rule map_of_SomeD)
  then have "r \<in> set (map snd (interface_index s))"
    by force
  with assms(1) show ?thesis
    unfolding refs_allocated_def by blast
qed

lemma get_intf_from_netbox_frame:
  assumes "get_intf_from_netbox e dev intf s = (fetched, s1)"
  shows "interface_index s1 = interface_index s"
    and "next_ref s \<le> next_ref s1"
    and "remote_calls s1 = remote_calls s @ [Lookup dev intf]"
    and "r < next_ref s \<Longrightarrow> interface_objs s1 r = interface_objs s r"
  using assms
  by (auto simp: get_intf_from_netbox_def new_interface_def Let_def split: option.splits)

lemma cable_endpoints_frame:
  assumes "cable_endpoints e s ids = (p, s1)"
  shows "interface_index s1 = interface_index s"
    and "next_ref s \<le> next_ref s1"
    and "\<exists>ls. remote_calls s1 = remote_calls s @ ls \<and> filter is_create ls = []"
    and "r < next_ref s \<Longrightarrow> interface_objs s1 r = interface_objs s r"
proof -
  let ?fa = "get_intf_from_netbox e (ids_device_a_name ids) (ids_interface_a_name ids) s"
  let ?fz = "get_intf_from_netbox e (ids_device_z_name ids) (ids_interface_z_name ids) s"
  have "s1 = snd ?fa \<or> s1 = snd ?fz \<or> s1 = s"
    using assms by (auto simp: cable_endpoints_def Let_def split: if_splits prod.splits)
  moreover have "interface_index (snd ?fa) = interface_index s" "next_ref s \<le> next_ref (snd ?fa)"
    "remote_calls (snd ?fa) = remote_calls s @ [Lookup (ids_device_a_name ids) (ids_interface_a_name ids)]"
    "r < next_ref s \<Longrightarrow> interface_objs (snd ?fa) r = interface_objs s r"
    using get_intf_from_netbox_frame [of e _ _ s "fst ?fa" "snd ?fa"] by simp_all
  moreover have "interface_index (snd ?fz) = interface_index s" "next_ref s \<le> next_ref (snd ?fz)"
    "remote_calls (snd ?fz) = remote_calls s @ [Lookup (ids_device_z_name ids) (ids_interface_z_name ids)]"
    "r < next_ref s \<Longrightarrow> interface_objs (snd ?fz) r = interface_objs s r"
    using get_intf_from_netbox_frame [of e _ _ s "fst ?fz" "snd ?fz"] by simp_all
  ultimately show "interface_index s1 = interface_index s"
    and "next_ref s \<le> next_ref s1"
    and "\<exists>ls. remote_calls s1 = remote_calls s @ ls \<and> filter is_create ls = []"
    and "r < next_ref s \<Longrightarrow> interface_objs s1 r = interface_objs s r"
    by auto
qed

lemma cable_endpoints_found:
  assumes "cable_endpoints e s ids = ((ia, iz), s1)"
    and "get_interface s k = Some r"
    and "k = fst (cable_keys ids) \<or> k = snd (cable_keys ids)"
  shows "ia = Some r \<or> iz = Some r"
  using assms
  by (auto simp: cable_endpoints_def cable_keys_def Let_def split: if_splits prod.splits)

lemma cable_endpoints_one_in_context:
  assumes "cable_endpoints e s ids = ((Some ra, Some rz), s1)"
  shows "\<exists>k r. (k = fst (cable_keys ids) \<or> k = snd (cable_keys ids))
            \<and> get_interface s k = Some r \<and> (r = ra \<or> r = rz)"
  using assms
  by (auto simp: cable_endpoints_def cable_keys_def Let_def split: if_splits prod.splits)

lemma cable_connect_guard:
  assumes "truthy_str (connected_endpoint_type (interface_objs s ra))
         \<or> truthy_str (connected_endpoint_type (interface_objs s rz))"
  shows "fst (cable_connect e s ids a ra rz) = Inr ReturnedFalse"
    and "remote_calls (snd (cable_connect e s ids a ra rz)) = remote_calls s"
  using assms by (auto simp: cable_connect_def log_msg_def)

lemma cable_connect_success:
  assumes "cable_connect e s ids a ra rz = (Inr (Item c), s')"
  shows "connected_endpoint_type (interface_objs s' ra) = Some ''dcim.interface''"
    and "connected_endpoint_type (interface_objs s' rz) = Some ''dcim.interface''"
    and "interface_index s' = interface_index s"
    and "next_ref s' = next_ref s"
proof -
  let ?c = "Create Cables
     [''termination_a_type'' \<mapsto> PStr ''dcim.interface'',
      ''termination_b_type'' \<mapsto> PStr ''dcim.interface'',
      ''termination_a_id'' \<mapsto> of_remote_id (remote_id (interface_objs s ra)),
      ''termination_b_id'' \<mapsto> of_remote_id (remote_id (interface_objs s rz))]"
  let ?s1 = "s\<lparr>remote_calls := remote_calls s @ [?c]\<rparr>"
  let ?m = "\<lambda>obj. obj\<lparr>connected_endpoint_type := Some ''dcim.interface''\<rparr>"
  from assms obtain i where "s' = log_msg INFO (CreatedCable i) (set_interface rz ?m (set_interface ra ?m ?s1))"
    by (auto simp: cable_connect_def remote_def Let_def split: if_splits sum.splits reply.splits)
  then show "connected_endpoint_type (interface_objs s' ra) = Some ''dcim.interface''"
    and "connected_endpoint_type (interface_objs s' rz) = Some ''dcim.interface''"
    and "interface_index s' = interface_index s"
    and "next_ref s' = next_ref s"
    by (simp_all add: log_msg_def set_interface_def)
qed

lemma cable_create_success:
  assumes "cable_create e s ids a = (Inr (Item c), s')"
  obtains (resolved) ra rz s1 where "cable_endpoints e s ids = ((Some ra, Some rz), s1)"
    and "cable_connect e s1 ids a ra rz = (Inr (Item c), s')"
  using assms
  by (auto simp: cable_create_def split: prod.splits option.splits)

lemma cable_create_guard:
  assumes "cable_endpoints e s ids = ((ia, iz), s1)"
    and "ia = Some r \<or> iz = Some r"
    and "truthy_str (connected_endpoint_type (interface_objs s1 r))"
  shows "fst (cable_create e s ids a) = Inr ReturnedFalse
       \<and> filter is_create (issued s (snd (cable_create e s ids a))) = []"
proof -
  from cable_endpoints_frame(3) [OF assms(1)]
  obtain ls where ls: "remote_calls s1 = remote_calls s @ ls" "filter is_create ls = []"
    by blast
  show ?thesis
  proof (cases "ia = None \<or> iz = None")
    case True
    with assms(1) have "cable_create e s ids a = (Inr ReturnedFalse, s1)"
      by (auto simp: cable_create_def split: option.splits)
    with ls show ?thesis by (simp add: issued_def)
  next
    case False
    then obtain ra rz where r: "ia = Some ra" "iz = Some rz" by auto
    with assms(1) have c: "cable_create e s ids a = cable_connect e s1 ids a ra rz"
      by (simp add: cable_create_def)
    from r assms(2,3) have "truthy_str (connected_endpoint_type (interface_objs s1 ra))
         \<or> truthy_str (connected_endpoint_type (interface_objs s1 rz))"
      by auto
    from cable_connect_guard [OF this, of e ids a] c ls show ?thesis
      by (simp add: issued_def)
  qed
qed

lemma cable_create_occupied:
  assumes "refs_allocated s" and "get_interface s k = Some r"
    and "k = fst (cable_keys ids) \<or> k = snd (cable_keys ids)"
    and "truthy_str (connected_endpoint_type (interface_objs s r))"
  shows "fst (cable_create e s ids a) = Inr ReturnedFalse
       \<and> filter is_create (issued s (snd (cable_create e s ids a))) = []"
proof -
  obtain ia iz s1 where ep: "cable_endpoints e s ids = ((ia, iz), s1)"
    by (metis surj_pair)
  from get_interface_allocated [OF assms(1,2)] have "r < next_ref s" .
  from cable_endpoints_frame(4) [OF ep this] assms(4)
  have "truthy_str (connected_endpoint_type (interface_objs s1 r))" by simp
  with ep cable_endpoints_found [OF ep assms(2,3)] show ?thesis
    by (rule cable_create_guard)
qed

text \<open>
  C3, as the specification states it, fails on a marker that is non-null but
  empty: the guard tests the truthiness of \<^verbatim>\<open>connected_endpoint_type\<close>. With
  the empty string as the marker of interface A the create goes through and
  issues the remote create.
\<close>

theorem cable_create_empty_marker_counterexample:
  "get_interface ex_dsync_empty_marker (Ident ''sw1'' ''eth0'') = Some 0
   \<and> connected_endpoint_type (interface_objs ex_dsync_empty_marker 0) \<noteq> None
   \<and> (\<exists>c. fst (cable_create ex_env ex_dsync_empty_marker ex_cable_ids Map.empty) = Inr (Item c))
   \<and> filter is_create
        (issued ex_dsync_empty_marker
           (snd (cable_create ex_env ex_dsync_empty_marker ex_cable_ids Map.empty))) \<noteq> []"
  by (simp add: cable_create_def cable_endpoints_def cable_connect_def get_interface_def
      remote_def issued_def log_msg_def set_interface_def ex_env_def ex_netbox_def
      ex_dsync_empty_marker_def ex_dsync_def ex_sw1_eth0_def ex_sw2_eth0_def ex_cable_ids_def
      Let_def)

text \<open>
  C3, amended: the marker that makes a create refuse is one that is set, that
  is, non-null and not the empty string. A successful cable create sets the
  marker of both endpoint interfaces. A cable create one of whose resolved
  endpoints has its marker set returns the failure sentinel and issues no remote
  create. Hence of two cable creates applied in sequence for the same two
  interfaces (in either order of the endpoints) only the first succeeds: after
  a successful first create the second returns the failure sentinel without a
  remote create.
\<close>

theorem cable_create_once:
  "(cable_create e s ids a = (Inr (Item c), s')
      \<longrightarrow> (\<exists>ra rz s1. cable_endpoints e s ids = ((Some ra, Some rz), s1)
             \<and> connected_endpoint_type (interface_objs s' ra) = Some ''dcim.interface''
             \<and> connected_endpoint_type (interface_objs s' rz) = Some ''dcim.interface''))
   \<and> (cable_endpoints e s ids = ((ia, iz), s1) \<and> (ia = Some r \<or> iz = Some r)
       \<and> truthy_str (connected_endpoint_type (interface_objs s1 r))
      \<longrightarrow> fst (cable_create e s ids a) = Inr ReturnedFalse
          \<and> filter is_create (issued s (snd (cable_create e s ids a))) = [])
   \<and> (refs_allocated s \<and> cable_create e s ids a = (Inr (Item c), s') \<and> same_interfaces ids ids'
      \<longrightarrow> fst (cable_create e s' ids' a') = Inr ReturnedFalse
          \<and> filter is_create (issued s' (snd (cable_create e s' ids' a'))) = [])"
  (is "(?first \<longrightarrow> ?marked) \<and> (?occupied \<longrightarrow> ?refused) \<and> (?sequence \<longrightarrow> ?second_refused)")
proof -
  have marked: ?marked if ?first
    using that
  proof (cases rule: cable_create_success)
    case (resolved ra rz s1)
    from resolved(1) cable_connect_success(1,2) [OF resolved(2)] show ?thesis by blast
  qed
  have refused: ?refused if ?occupied
    using that cable_create_guard by blast
  have second_refused: ?second_refused if h: ?sequence
  proof -
    from h have alloc: "refs_allocated s" and same: "same_interfaces ids ids'"
      and "cable_create e s ids a = (Inr (Item c), s')"
      by simp_all
    from this(3) show ?thesis
    proof (cases rule: cable_create_success)
      case (resolved ra rz s1)
      from cable_endpoints_one_in_context [OF resolved(1)]
      obtain k p where k: "k = fst (cable_keys ids) \<or> k = snd (cable_keys ids)"
        and g: "get_interface s k = Some p" and p: "p = ra \<or> p = rz"
        by blast
      have idx: "interface_index s' = interface_index s"
        using cable_connect_success(3) [OF resolved(2)] cable_endpoints_frame(1) [OF resolved(1)]
        by simp
      have nxt: "next_ref s \<le> next_ref s'"
        using cable_connect_success(4) [OF resolved(2)] cable_endpoints_frame(2) [OF resolved(1)]
        by simp
      from alloc idx nxt have alloc': "refs_allocated s'"
        unfolding refs_allocated_def by fastforce
      from g idx have g': "get_interface s' k = Some p"
        by (simp add: get_interface_def)
      from k same have k': "k = fst (cable_keys ids') \<or> k = snd (cable_keys ids')"
        unfolding same_interfaces_def by auto
      from p cable_connect_success(1,2) [OF resolved(2)]
      have "truthy_str (connected_endpoint_type (interface_objs s' p))"
        by auto
      with alloc' g' k' show ?thesis
        by (rule cable_create_occupied)
    qed
  qed
  from marked refused second_refused show ?thesis by blast
qed

lemma ex_first_cable:
  "\<exists>c s'. cable_create ex_env ex_dsync ex_cable_ids Map.empty = (Inr (Item c), s')"
  by (simp add: cable_create_def cable_endpoints_def cable_connect_def get_interface_def
      remote_def log_msg_def set_interface_def ex_env_def ex_netbox_def
      ex_dsync_def ex_sw1_eth0_def ex_sw2_eth0_def ex_cable_ids_def Let_def)

lemma ex_first_endpoints:
  "cable_endpoints ex_env ex_dsync ex_cable_ids = ((Some 0, Some 1), ex_dsync)"
  by (simp add: cable_endpoints_def get_interface_def ex_dsync_def ex_cable_ids_def Let_def)

theorem cable_create_once_witness:
  "refs_allocated ex_dsync
   \<and> same_interfaces ex_cable_ids ex_cable_ids
   \<and> (\<exists>c s'. cable_create ex_env ex_dsync ex_cable_ids Map.empty = (Inr (Item c), s')
        \<and> connected_endpoint_type (interface_objs s' 0) = Some ''dcim.interface''
        \<and> connected_endpoint_type (interface_objs s' 1) = Some ''dcim.interface''
        \<and> fst (cable_create ex_env s' ex_cable_ids Map.empty) = Inr ReturnedFalse
        \<and> filter is_create (issued s' (snd (cable_create ex_env s' ex_cable_ids Map.empty))) = [])"
proof -
  have alloc: "refs_allocated ex_dsync"
    by (simp add: refs_allocated_def ex_dsync_def)
  have same: "same_interfaces ex_cable_ids ex_cable_ids"
    by (simp add: same_interfaces_def)
  obtain c s' where first: "cable_create ex_env ex_dsync ex_cable_ids Map.empty = (Inr (Item c), s')"
    using ex_first_cable by blast
  note inst = cable_create_once [of ex_env ex_dsync ex_cable_ids Map.empty c s' _ _ _ _ ex_cable_ids Map.empty]
  from inst first ex_first_endpoints
  have m: "connected_endpoint_type (interface_objs s' 0) = Some ''dcim.interface''"
    "connected_endpoint_type (interface_objs s' 1) = Some ''dcim.interface''"
    by auto
  from inst alloc first same
  have "fst (cable_create ex_env s' ex_cable_ids Map.empty) = Inr ReturnedFalse
      \<and> filter is_create (issued s' (snd (cable_create ex_env s' ex_cable_ids Map.empty))) = []"
    by blast
  with alloc same first m show ?thesis by blast
qed

end
